theory Spec2Isabelle
  imports Main
begin

section \<open>Text documents (language\_server/common/text\_document.py)\<close>

subsection \<open>Python strings, \<open>str.splitlines(True)\<close> and slices\<close>

text \<open>
  A Python \<open>str\<close> is a sequence of Unicode code points, so a text is a list of
  code points (natural numbers); \<open>len\<close> and the slices count code points.
\<close>

type_synonym pystr = "nat list"

definition str_of :: "string \<Rightarrow> pystr" where
  "str_of s = map of_char s"

text \<open>
  The line boundaries of \<open>str.splitlines\<close>: LF, VT, FF, CR, FS, GS, RS, NEL, LINE SEPARATOR
  and PARAGRAPH SEPARATOR; CR LF counts as one boundary.
\<close>

definition is_linebreak :: "nat \<Rightarrow> bool" where
  "is_linebreak c \<longleftrightarrow> c \<in> {10, 11, 12, 13, 28, 29, 30, 133, 8232, 8233}"

text \<open>\<open>splitlines_from cur s\<close>: the lines of \<open>cur + s\<close> where \<open>cur\<close> is the part of the
  current line read so far; every line keeps its terminator (\<open>keepends=True\<close>).\<close>

fun splitlines_from :: "pystr \<Rightarrow> pystr \<Rightarrow> pystr list" where
  "splitlines_from cur [] = (if cur = [] then [] else [cur])"
| "splitlines_from cur [c] =
     (if is_linebreak c then [cur @ [c]] else splitlines_from (cur @ [c]) [])"
| "splitlines_from cur (c # d # cs) =
     (if c = 13 \<and> d = 10 then (cur @ [c, d]) # splitlines_from [] cs
      else if is_linebreak c then (cur @ [c]) # splitlines_from [] (d # cs)
      else splitlines_from (cur @ [c]) (d # cs))"

definition splitlines :: "pystr \<Rightarrow> pystr list" where
  "splitlines s = splitlines_from [] s"

text \<open>Python slices \<open>xs[:k]\<close> and \<open>xs[k:]\<close>: a negative \<open>k\<close> counts from the end, and the
  bound is clamped to \<open>0 .. len(xs)\<close>.\<close>

definition slice_index :: "'a list \<Rightarrow> int \<Rightarrow> nat" where
  "slice_index xs k = nat (if k < 0 then int (length xs) + k else k)"

definition slice_to :: "'a list \<Rightarrow> int \<Rightarrow> 'a list" where
  "slice_to xs k = take (slice_index xs k) xs"

definition slice_from :: "'a list \<Rightarrow> int \<Rightarrow> 'a list" where
  "slice_from xs k = drop (slice_index xs k) xs"

subsection \<open>Positions and ranges (lsp\_types.py)\<close>

record position =
  line :: int
  character :: int

record range =
  range_start :: position
  range_end :: position

text \<open>\<open>Position.__gt__\<close> and \<open>Position.__le__\<close>, as written in the source.\<close>

definition pos_gt :: "position \<Rightarrow> position \<Rightarrow> bool" where
  "pos_gt a b =
     (if line a > line b then True
      else if line a = line b then character a > character b
      else False)"


subsection \<open>The document\<close>

datatype error = InvalidRangeError

text \<open>A \<open>CacheEntry\<close>: the memoized value (\<open>None\<close> is Python's \<open>None\<close>) and its own lock.\<close>

record 'v cache_entry =
  ce_data :: "'v option"
  ce_lock :: bool

text \<open>
  The fields of \<open>TextDocument\<close> that the synchronisation operations and the cache use.
  A lock is a flag (held or free); cache slots are keyed by the identity of the consumer
  (the weak reference to the computing function), a natural number here.
\<close>

record 'v text_document =
  doc_version :: "int option"
  doc_text :: pystr
  doc_lines :: "pystr list option"
  doc_cache :: "nat \<rightharpoonup> 'v cache_entry"
  doc_lock :: bool

text \<open>
  \<open>async with self._lock: body\<close>. A held lock suspends the caller until it is released; in
  this sequential model the operation then does not complete, which is the value \<open>None\<close>.
  Otherwise the body runs with the lock held, and the lock is released however the body
  ends (the body returns its outcome, an error or a value, as data).
\<close>

definition with_lock ::
  "'v text_document \<Rightarrow> ('v text_document \<Rightarrow> 'a \<times> 'v text_document) \<Rightarrow>
     ('a \<times> 'v text_document) option" where
  "with_lock d body =
     (if doc_lock d then None
      else (case body (d\<lparr>doc_lock := True\<rparr>) of
              (r, d') \<Rightarrow> Some (r, d'\<lparr>doc_lock := False\<rparr>)))"

definition invalidate_cache' :: "'v text_document \<Rightarrow> 'v text_document" where
  "invalidate_cache' d = d\<lparr>doc_cache := Map.empty\<rparr>"

text \<open>\<open>__get_lines\<close>: the line index is computed on demand and kept.\<close>

definition get_lines' :: "'v text_document \<Rightarrow> pystr list \<times> 'v text_document" where
  "get_lines' d =
     (case doc_lines d of
        None \<Rightarrow> (splitlines (doc_text d), d\<lparr>doc_lines := Some (splitlines (doc_text d))\<rparr>)
      | Some ls \<Rightarrow> (ls, d))"

text \<open>
  The loop \<open>for i, line in enumerate(lines)\<close> of \<open>apply_incremental_change\<close>, writing to the
  \<open>StringIO\<close> \<open>new_text\<close> (the accumulator).
\<close>

fun write_lines ::
  "int \<Rightarrow> pystr list \<Rightarrow> int \<Rightarrow> int \<Rightarrow> int \<Rightarrow> int \<Rightarrow> pystr \<Rightarrow> pystr \<Rightarrow> pystr" where
  "write_lines i [] start_line start_col end_line end_col txt new_text = new_text"
| "write_lines i (ln # lns) start_line start_col end_line end_col txt new_text =
     (if i < start_line \<or> i > end_line
      then write_lines (i + 1) lns start_line start_col end_line end_col txt (new_text @ ln)
      else
        let t1 = (if i = start_line then new_text @ slice_to ln start_col @ txt else new_text);
            t2 = (if i = end_line then t1 @ slice_from ln end_col else t1)
        in write_lines (i + 1) lns start_line start_col end_line end_col txt t2)"

text \<open>The \<open>try\<close> block of \<open>apply_incremental_change\<close>: the version is stored first, then the
  range is checked.\<close>

definition incremental_try ::
  "'v text_document \<Rightarrow> int option \<Rightarrow> range \<Rightarrow> pystr \<Rightarrow> (error + unit) \<times> 'v text_document" where
  "incremental_try d version rng txt =
     (let d1 = (case version of None \<Rightarrow> d | Some v \<Rightarrow> d\<lparr>doc_version := Some v\<rparr>)
      in if pos_gt (range_start rng) (range_end rng) then (Inl InvalidRangeError, d1)
         else
           (case get_lines' d1 of
              (lns, d2) \<Rightarrow>
                let start_line = line (range_start rng);
                    start_col = character (range_start rng);
                    end_line = line (range_end rng);
                    end_col = character (range_end rng)
                in if start_line = int (length lns)
                   then (Inr (), d2\<lparr>doc_text := doc_text d2 @ txt\<rparr>)
                   else (Inr (),
                         d2\<lparr>doc_text :=
                              write_lines 0 lns start_line start_col end_line end_col txt []\<rparr>)))"

text \<open>\<open>apply_incremental_change\<close>: the \<open>try\<close> block under the document lock, then the
  \<open>finally\<close> block (line index dropped, cache cleared) on both exits.\<close>

definition apply_incremental_change ::
  "'v text_document \<Rightarrow> int option \<Rightarrow> range \<Rightarrow> pystr \<Rightarrow>
     ((error + unit) \<times> 'v text_document) option" where
  "apply_incremental_change d version rng txt =
     with_lock d (\<lambda>d0.
       case incremental_try d0 version rng txt of
         (r, d1) \<Rightarrow> (r, invalidate_cache' (d1\<lparr>doc_lines := None\<rparr>)))"


text \<open>
  \<open>get_cache\<close>. \<open>ref\<close> is the identity of the consumer \<open>entry\<close>, the computation; \<open>entry\<close> is
  taken as a function of the document. The result is the value returned, the document
  afterwards and how many times \<open>entry\<close> was awaited (0 or 1).
\<close>

definition get_cache ::
  "'v text_document \<Rightarrow> nat \<Rightarrow> ('v text_document \<Rightarrow> 'v option) \<Rightarrow>
     ('v option \<times> 'v text_document \<times> nat) option" where
  "get_cache d ref entry =
     (case (case doc_cache d ref of
              Some e \<Rightarrow> Some (e, d)
            | None \<Rightarrow>
                with_lock d (\<lambda>d0.
                  case doc_cache d0 ref of
                    Some e \<Rightarrow> (e, d0)
                  | None \<Rightarrow>
                      (\<lparr>ce_data = None, ce_lock = False\<rparr>,
                       d0\<lparr>doc_cache := (doc_cache d0)(ref \<mapsto> \<lparr>ce_data = None, ce_lock = False\<rparr>)\<rparr>)))
      of None \<Rightarrow> None
       | Some (e, d1) \<Rightarrow>
           (case ce_data e of
              Some v \<Rightarrow> Some (Some v, d1, 0)
            | None \<Rightarrow>
                if ce_lock e then None
                else
                  let held = d1\<lparr>doc_cache := (doc_cache d1)(ref \<mapsto> e\<lparr>ce_lock := True\<rparr>)\<rparr>;
                      v = entry held
                  in Some (v, d1\<lparr>doc_cache := (doc_cache d1)(ref \<mapsto> e\<lparr>ce_data := v\<rparr>)\<rparr>, 1)))"

subsection \<open>The incremental edit as the specification words it\<close>


text \<open>A cache slot that holds no value yet and is not being computed (or is absent, with
  the document lock free).\<close>

definition slot_unset :: "'v text_document \<Rightarrow> nat \<Rightarrow> bool" where
  "slot_unset d ref =
     (case doc_cache d ref of None \<Rightarrow> \<not> doc_lock d | Some e \<Rightarrow> ce_data e = None \<and> \<not> ce_lock e)"

subsection \<open>Sample inputs\<close>

definition sample_document :: "unit text_document" where
  "sample_document =
     \<lparr>doc_version = Some 1, doc_text = str_of ''abc\<newline>def\<newline>'', doc_lines = None,
      doc_cache = Map.empty, doc_lock = False\<rparr>"


definition sample_reversed_range :: range where
  "sample_reversed_range =
     \<lparr>range_start = \<lparr>line = 1, character = 2\<rparr>, range_end = \<lparr>line = 1, character = 0\<rparr>\<rparr>"

definition never_ready :: "unit text_document \<Rightarrow> unit option" where
  "never_ready d = None"

section \<open>The JSON-RPC protocol (server/jsonrpc2/protocol.py)\<close>

subsection \<open>Messages\<close>

text \<open>Decoded JSON values (\<open>Any\<close> in the source); \<open>JNull\<close> is Python's \<open>None\<close>.\<close>

datatype json =
    JNull
  | JBool bool
  | JInt int
  | JStr string
  | JList "json list"
  | JDict "(string \<times> json) list"

text \<open>A message id is a string or an integer (\<open>Union[str, int, None]\<close>, \<open>None\<close> being the
  absent id).\<close>

datatype rpc_id = IdStr string | IdInt int

record error_object =
  err_code :: int
  err_message :: "string option"
  err_data :: "json option"

datatype jsonrpc_message =
    JsonRPCNotification string "json option"
  | JsonRPCRequest "rpc_id option" string "json option"
  | JsonRPCResponse "rpc_id option" json
  | JsonRPCError "rpc_id option" error_object

text \<open>\<open>class JsonRPCErrors\<close>.\<close>

definition PARSE_ERROR :: int where "PARSE_ERROR = - 32700"
definition INVALID_REQUEST :: int where "INVALID_REQUEST = - 32600"
definition METHOD_NOT_FOUND :: int where "METHOD_NOT_FOUND = - 32601"
definition INVALID_PARAMS :: int where "INVALID_PARAMS = - 32602"
definition INTERNAL_ERROR :: int where "INTERNAL_ERROR = - 32603"

subsection \<open>Handlers, signatures and the registry\<close>

text \<open>
  The exceptions that leave a function of the protocol by name; any other exception is
  \<open>PyError s\<close>, \<open>s\<close> being its \<open>str()\<close>.
\<close>

datatype exc = NotImplementedError | InvalidStateError | UnicodeDecodeError | PyError string

text \<open>The object \<open>param_type(**params)\<close> as its \<open>__dict__\<close>: the fields in order, with their
  values.\<close>

type_synonym typed_params = "(string \<times> json) list"

text \<open>What a handler is called with: a field value (or a raw parameter), or the whole typed
  object.\<close>

datatype call_arg = ArgValue json | ArgObject typed_params

text \<open>\<open>inspect.Parameter.kind\<close> and the parameters of \<open>inspect.signature(callable)\<close>.\<close>

datatype param_kind =
  POSITIONAL_ONLY | POSITIONAL_OR_KEYWORD | VAR_POSITIONAL | KEYWORD_ONLY | VAR_KEYWORD

record parameter =
  p_name :: string
  p_kind :: param_kind

text \<open>
  A registered method (\<open>RpcMethodEntry\<close>): the handler, taken as a function from its
  positional and keyword arguments to a result or the \<open>str()\<close> of the exception it raises
  (awaited if need be), whether it is callable, its signature, and the
  parameter type, taken as the function \<open>param_type(**params)\<close> that builds the typed
  object or raises.
\<close>

record rpc_method_entry =
  me_method :: "call_arg list \<Rightarrow> (string \<times> call_arg) list \<Rightarrow> string + json"
  me_callable :: bool
  me_signature :: "parameter list"
  me_param_type :: "(json \<Rightarrow> string + typed_params) option"

subsection \<open>Parameter binding: \<open>_convert_params\<close>\<close>

text \<open>A Python \<open>dict\<close> keeps insertion order; assigning to a key that is present replaces
  its value in place.\<close>

fun dict_set :: "'k \<Rightarrow> 'v \<Rightarrow> ('k \<times> 'v) list \<Rightarrow> ('k \<times> 'v) list" where
  "dict_set k v [] = [(k, v)]"
| "dict_set k v ((k', v') # kvs) =
     (if k = k' then (k, v) # kvs else (k', v') # dict_set k v kvs)"

text \<open>
  The loop over \<open>signature.parameters.values()\<close>. The state is
  \<open>(args, kw_args, rest, params_added)\<close>; \<open>cp\<close> is \<open>converted_params.__dict__\<close>.
\<close>

fun bind_loop ::
  "parameter list \<Rightarrow> typed_params \<Rightarrow> bool \<Rightarrow>
   call_arg list \<times> (string \<times> call_arg) list \<times> string list \<times> bool \<Rightarrow>
   call_arg list \<times> (string \<times> call_arg) list \<times> string list \<times> bool" where
  "bind_loop [] cp has_var_kw st = st"
| "bind_loop (v # vs) cp has_var_kw (args, kw_args, rest, params_added) =
     (case map_of cp (p_name v) of
        Some x \<Rightarrow>
          bind_loop vs cp has_var_kw
            (if p_kind v = POSITIONAL_ONLY then
               (args @ [ArgValue x], kw_args, remove1 (p_name v) rest, params_added)
             else if has_var_kw then
               (args, dict_set (p_name v) (ArgValue x) kw_args, remove1 (p_name v) rest,
                params_added)
             else (args, kw_args, remove1 (p_name v) rest, params_added))
      | None \<Rightarrow>
          if p_name v = ''params'' then
            bind_loop vs cp has_var_kw
              (if p_kind v = POSITIONAL_ONLY then (args @ [ArgObject cp], kw_args, rest, True)
               else (args, dict_set (p_name v) (ArgObject cp) kw_args, rest, True))
          else bind_loop vs cp has_var_kw (args, kw_args, rest, params_added))"

text \<open>The loop \<open>for r in rest: kw_args[r] = getattr(converted_params, r)\<close>.\<close>

fun rest_loop ::
  "string list \<Rightarrow> typed_params \<Rightarrow> (string \<times> call_arg) list \<Rightarrow> (string \<times> call_arg) list" where
  "rest_loop [] cp kw_args = kw_args"
| "rest_loop (r # rs) cp kw_args =
     (case map_of cp r of
        Some x \<Rightarrow> rest_loop rs cp (dict_set r (ArgValue x) kw_args)
      | None \<Rightarrow> rest_loop rs cp kw_args)"

definition has_var_kw :: "parameter list \<Rightarrow> bool" where
  "has_var_kw sig = (\<exists>p \<in> set sig. p_kind p = VAR_KEYWORD)"

text \<open>
  \<open>_convert_params(callable, param_type, params)\<close>, with the signature of \<open>callable\<close> given.
  The test \<open>issubclass(type, BaseModel)\<close> of the source is about the builtin \<open>type\<close> and is
  false, so the typed object is always \<open>param_type(**params)\<close>.
\<close>

definition convert_params ::
  "parameter list \<Rightarrow> (json \<Rightarrow> string + typed_params) option \<Rightarrow> json option \<Rightarrow>
     string + (call_arg list \<times> (string \<times> call_arg) list)" where
  "convert_params sig param_type params =
     (case params of
        None \<Rightarrow> Inr ([], [])
      | Some JNull \<Rightarrow> Inr ([], [])
      | Some p \<Rightarrow>
          (case param_type of
             None \<Rightarrow>
               (case p of
                  JDict kvs \<Rightarrow> Inr ([], map (\<lambda>(k, x). (k, ArgValue x)) kvs)
                | _ \<Rightarrow> Inr ([ArgValue p], []))
           | Some construct \<Rightarrow>
               (case construct p of
                  Inl e \<Rightarrow> Inl e
                | Inr cp \<Rightarrow>
                    (case bind_loop sig cp (has_var_kw sig) ([], [], map fst cp, False) of
                       (args, kw_args, rest, params_added) \<Rightarrow>
                         if has_var_kw sig then
                           let kw1 = rest_loop rest cp kw_args;
                               kw2 = (if \<not> params_added
                                      then dict_set ''params'' (ArgObject cp) kw1 else kw1)
                           in Inr (args, kw2)
                         else Inr (args, kw_args)))))"

subsection \<open>The connection\<close>

text \<open>An \<open>asyncio.Future\<close>: pending, finished with a result, or failed with an exception.\<close>

datatype future_state = Pending | Finished json | Failed exc

text \<open>\<open>_RequestFuturesEntry\<close>: the future (a reference into the store of futures) and the
  conversion \<open>_try_convert_value(_, result_type)\<close> of the result, which may raise; \<open>None\<close>
  when there is no result type.\<close>

record request_futures_entry =
  rf_future :: nat
  rf_result_type :: "(json \<Rightarrow> string + json) option"

text \<open>
  The state of a \<open>JsonRPCProtocol\<close>: the transport as the list of the messages written to
  it (\<open>None\<close> when there is no transport), the pending requests, the receive buffer, the
  registry (\<open>registry.get_entry\<close>), the futures, and the messages for which
  \<open>handle_message\<close> has been scheduled, in order.
\<close>

record connection =
  transport :: "jsonrpc_message list option"
  request_futures :: "rpc_id \<rightharpoonup> request_futures_entry"
  message_buf :: string
  registry :: "string \<rightharpoonup> rpc_method_entry"
  futures :: "nat \<Rightarrow> future_state"
  scheduled :: "jsonrpc_message list"

definition send_data :: "connection \<Rightarrow> jsonrpc_message \<Rightarrow> connection" where
  "send_data st m =
     (case transport st of
        None \<Rightarrow> st
      | Some written \<Rightarrow> st\<lparr>transport := Some (written @ [m])\<rparr>)"

definition send_response :: "connection \<Rightarrow> rpc_id option \<Rightarrow> json \<Rightarrow> connection" where
  "send_response st i result = send_data st (JsonRPCResponse i result)"

definition send_error ::
  "connection \<Rightarrow> int \<Rightarrow> string \<Rightarrow> rpc_id option \<Rightarrow> json option \<Rightarrow> connection" where
  "send_error st c msg i d =
     send_data st (JsonRPCError i \<lparr>err_code = c, err_message = Some msg, err_data = d\<rparr>)"

subsection \<open>Dispatch\<close>

text \<open>\<open>str\<close> of a non-negative integer and of a message id, for the messages the
  dispatcher formats.\<close>

fun str_nat :: "nat \<Rightarrow> string" where
  "str_nat n = (if n < 10 then [char_of (48 + n)] else str_nat (n div 10) @ [char_of (48 + n mod 10)])"

definition str_int :: "int \<Rightarrow> string" where
  "str_int i = (if i < 0 then CHR ''-'' # str_nat (nat (- i)) else str_nat (nat i))"

definition str_id :: "rpc_id \<Rightarrow> string" where
  "str_id i = (case i of IdStr s \<Rightarrow> s | IdInt n \<Rightarrow> str_int n)"

text \<open>\<open>Future.set_result\<close> and \<open>Future.set_exception\<close> raise \<open>InvalidStateError\<close> on a
  future that is not pending.\<close>

definition set_result :: "connection \<Rightarrow> nat \<Rightarrow> json \<Rightarrow> exc + connection" where
  "set_result st f v =
     (if futures st f = Pending then Inr (st\<lparr>futures := (futures st)(f := Finished v)\<rparr>)
      else Inl InvalidStateError)"

definition set_exception :: "connection \<Rightarrow> nat \<Rightarrow> exc \<Rightarrow> exc + connection" where
  "set_exception st f e =
     (if futures st f = Pending then Inr (st\<lparr>futures := (futures st)(f := Failed e)\<rparr>)
      else Inl InvalidStateError)"

definition try_convert_value :: "json \<Rightarrow> (json \<Rightarrow> string + json) option \<Rightarrow> string + json" where
  "try_convert_value v result_type = (case result_type of None \<Rightarrow> Inr v | Some conv \<Rightarrow> conv v)"

text \<open>
  \<open>handle_response\<close>. The result is the exception that leaves the coroutine, if any, and
  the connection afterwards.
\<close>

definition handle_response ::
  "connection \<Rightarrow> rpc_id option \<Rightarrow> json \<Rightarrow> exc option \<times> connection" where
  "handle_response st mid result =
     (case mid of
        None \<Rightarrow>
          (None, send_error st INTERNAL_ERROR ''Invalid response. Response id is null'' None None)
      | Some i \<Rightarrow>
          (case request_futures st i of
             None \<Rightarrow>
               (None,
                send_error st INTERNAL_ERROR
                  (''Invalid response. Could not find id '' @ [CHR 0x27] @ str_id i @ [CHR 0x27]
                     @ '' in our request list'') None None)
           | Some entry \<Rightarrow>
               let st1 = st\<lparr>request_futures := (request_futures st)(i := None)\<rparr>;
                   tried =
                     (case try_convert_value result (rf_result_type entry) of
                        Inl e \<Rightarrow> Inl (PyError e)
                      | Inr v \<Rightarrow> set_result st1 (rf_future entry) v)
               in (case tried of
                     Inr st2 \<Rightarrow> (None, st2)
                   | Inl e \<Rightarrow>
                       (case set_exception st1 (rf_future entry) e of
                          Inr st2 \<Rightarrow> (None, st2)
                        | Inl e' \<Rightarrow> (Some e', st1)))))"

text \<open>\<open>handle_error\<close>: \<open>raise NotImplementedError()\<close>.\<close>

definition handle_error ::
  "connection \<Rightarrow> rpc_id option \<Rightarrow> error_object \<Rightarrow> exc option \<times> connection" where
  "handle_error st mid err = (Some NotImplementedError, st)"

definition handle_request ::
  "connection \<Rightarrow> rpc_id option \<Rightarrow> string \<Rightarrow> json option \<Rightarrow> exc option \<times> connection" where
  "handle_request st mid method params =
     (case (case registry st method of
              None \<Rightarrow> None
            | Some e \<Rightarrow> if me_callable e then Some e else None) of
        None \<Rightarrow>
          (None, send_error st METHOD_NOT_FOUND (''Unknown method: '' @ method) mid None)
      | Some e \<Rightarrow>
          (case convert_params (me_signature e) (me_param_type e) params of
             Inl ex \<Rightarrow> (None, send_error st INTERNAL_ERROR ex mid None)
           | Inr (args, kw_args) \<Rightarrow>
               (case me_method e args kw_args of
                  Inl ex \<Rightarrow> (None, send_error st INTERNAL_ERROR ex mid None)
                | Inr result \<Rightarrow> (None, send_response st mid result))))"

definition handle_notification ::
  "connection \<Rightarrow> string \<Rightarrow> json option \<Rightarrow> exc option \<times> connection" where
  "handle_notification st method params =
     (case (case registry st method of
              None \<Rightarrow> None
            | Some e \<Rightarrow> if me_callable e then Some e else None) of
        None \<Rightarrow> (None, st)
      | Some e \<Rightarrow>
          (case convert_params (me_signature e) (me_param_type e) params of
             Inl ex \<Rightarrow> (None, st)
           | Inr (args, kw_args) \<Rightarrow>
               (case me_method e args kw_args of
                  Inl ex \<Rightarrow> (None, st)
                | Inr result \<Rightarrow> (None, st))))"

text \<open>\<open>handle_message\<close>: requests, notifications, errors, responses, in the order of the
  \<open>isinstance\<close> tests (\<open>JsonRPCError\<close> is tested before its base class
  \<open>JsonRPCResponse\<close>).\<close>

fun handle_message :: "connection \<Rightarrow> jsonrpc_message \<Rightarrow> exc option \<times> connection" where
  "handle_message st (JsonRPCRequest mid method params) = handle_request st mid method params"
| "handle_message st (JsonRPCNotification method params) = handle_notification st method params"
| "handle_message st (JsonRPCError mid err) = handle_error st mid err"
| "handle_message st (JsonRPCResponse mid result) = handle_response st mid result"

subsection \<open>Parameter binding in closed form\<close>

text \<open>
  The positional arguments: in the order of the signature, the value of each field that
  names a positional-only parameter, and the whole typed object for a positional-only
  parameter called \<open>params\<close> that is not a field.
\<close>

definition spec_args :: "parameter list \<Rightarrow> typed_params \<Rightarrow> call_arg list" where
  "spec_args sig cp =
     concat (map (\<lambda>v. case map_of cp (p_name v) of
                         Some x \<Rightarrow> if p_kind v = POSITIONAL_ONLY then [ArgValue x] else []
                       | None \<Rightarrow> if p_name v = ''params'' \<and> p_kind v = POSITIONAL_ONLY
                                 then [ArgObject cp] else []) sig)"

definition positional_only_in :: "parameter list \<Rightarrow> string \<Rightarrow> bool" where
  "positional_only_in sig n = (\<exists>v \<in> set sig. p_name v = n \<and> p_kind v = POSITIONAL_ONLY)"

definition keyword_capable_in :: "parameter list \<Rightarrow> string \<Rightarrow> bool" where
  "keyword_capable_in sig n = (\<exists>v \<in> set sig. p_name v = n \<and> p_kind v \<noteq> POSITIONAL_ONLY)"

text \<open>
  The keyword arguments, by key. With a catch-all \<open>**kwargs\<close>: every field is passed by
  keyword unless it names a positional-only parameter, and the whole typed object is passed
  as \<open>params\<close> unless a positional-only parameter of that name received it. Without one:
  no field is passed by keyword, and the whole typed object is passed only to a parameter
  called \<open>params\<close> that is not a field.
\<close>

definition spec_kw_args :: "parameter list \<Rightarrow> typed_params \<Rightarrow> string \<Rightarrow> call_arg option" where
  "spec_kw_args sig cp n =
     (if has_var_kw sig then
        (if n = ''params'' then
           (if map_of cp n = None \<and> positional_only_in sig n \<and> \<not> keyword_capable_in sig n then None
            else Some (ArgObject cp))
         else
           (case map_of cp n of
              None \<Rightarrow> None
            | Some x \<Rightarrow>
                if positional_only_in sig n \<and> \<not> keyword_capable_in sig n then None
                else Some (ArgValue x)))
      else
        (if n = ''params'' \<and> map_of cp n = None \<and> keyword_capable_in sig n
         then Some (ArgObject cp) else None))"

subsection \<open>Sample inputs\<close>

text \<open>A connection with one request pending and an empty registry.\<close>

definition sample_connection :: connection where
  "sample_connection =
     \<lparr>transport = Some [],
      request_futures = [IdStr ''1'' \<mapsto> \<lparr>rf_future = 0, rf_result_type = None\<rparr>],
      message_buf = [],
      registry = Map.empty,
      futures = (\<lambda>_. Pending),
      scheduled = []\<rparr>"

definition sample_error_object :: error_object where
  "sample_error_object = \<lparr>err_code = - 32000, err_message = Some ''failed'', err_data = None\<rparr>"

text \<open>A parameter type whose fields are the keys of the raw object, the signature of a
  handler with a catch-all keyword parameter, and one without.\<close>

definition sample_param_type :: "json \<Rightarrow> string + typed_params" where
  "sample_param_type p = (case p of JDict kvs \<Rightarrow> Inr kvs | _ \<Rightarrow> Inl ''TypeError'')"

definition sample_params :: json where
  "sample_params =
     JDict [(''text_document'', JStr ''file:///a.robot''), (''identifier'', JNull),
            (''work_done_token'', JInt 5)]"

definition sample_signature :: "parameter list" where
  "sample_signature =
     [\<lparr>p_name = ''text_document'', p_kind = POSITIONAL_OR_KEYWORD\<rparr>,
      \<lparr>p_name = ''identifier'', p_kind = POSITIONAL_OR_KEYWORD\<rparr>,
      \<lparr>p_name = ''args'', p_kind = VAR_POSITIONAL\<rparr>,
      \<lparr>p_name = ''kwargs'', p_kind = VAR_KEYWORD\<rparr>]"

definition sample_signature_plain :: "parameter list" where
  "sample_signature_plain =
     [\<lparr>p_name = ''text_document'', p_kind = POSITIONAL_OR_KEYWORD\<rparr>,
      \<lparr>p_name = ''identifier'', p_kind = POSITIONAL_OR_KEYWORD\<rparr>]"

section \<open>Message framing (\<open>JsonRPCProtocol.data_received\<close>)\<close>

subsection \<open>Regular expressions as \<open>re.match\<close> runs them\<close>

text \<open>
  The constructs that \<open>MESSAGE_PATTERN\<close> uses, over bytes: a literal byte, a negated class
  \<open>[^...]\<close>, \<open>\d\<close> (the ASCII digits, the pattern being a bytes pattern), \<open>.\<close> under
  \<open>re.DOTALL\<close>, the empty pattern, concatenation, alternation, the greedy star and a named
  group. The greedy \<open>?\<close> and \<open>+\<close> are derived. Groups without a name are never read by
  the source and are plain grouping here.
\<close>

datatype rx =
    RLit char
  | RNoneOf "char list"
  | RDigit
  | RAny
  | REps
  | RSeq rx rx
  | RAlt rx rx
  | RStar rx
  | RGroup string rx

definition ropt :: "rx \<Rightarrow> rx" where
  "ropt r = RAlt r REps"

definition rplus :: "rx \<Rightarrow> rx" where
  "rplus r = RSeq r (RStar r)"

fun rlits :: "string \<Rightarrow> rx" where
  "rlits [] = REps"
| "rlits (c # cs) = RSeq (RLit c) (rlits cs)"

definition is_digit :: "char \<Rightarrow> bool" where
  "is_digit c = (48 \<le> (of_char c :: nat) \<and> (of_char c :: nat) \<le> 57)"

type_synonym groups = "string \<rightharpoonup> string"

text \<open>
  The backtracking search of \<open>re\<close>: \<open>rx_run r s g\<close> lists, in the order in which the
  matcher tries them, the ways \<open>r\<close> matches a prefix of \<open>s\<close>, each as the rest of the input
  and the groups captured so far. An alternation tries its left branch first; a greedy star
  tries one more iteration before it tries to stop, and an iteration has to consume input.
  A group keeps the text of its last match.
\<close>

fun rx_run :: "rx \<Rightarrow> string \<Rightarrow> groups \<Rightarrow> (string \<times> groups) list" where
  "rx_run (RLit c) s g = (case s of [] \<Rightarrow> [] | x # xs \<Rightarrow> if x = c then [(xs, g)] else [])"
| "rx_run (RNoneOf cs) s g =
     (case s of [] \<Rightarrow> [] | x # xs \<Rightarrow> if x \<in> set cs then [] else [(xs, g)])"
| "rx_run RDigit s g = (case s of [] \<Rightarrow> [] | x # xs \<Rightarrow> if is_digit x then [(xs, g)] else [])"
| "rx_run RAny s g = (case s of [] \<Rightarrow> [] | x # xs \<Rightarrow> [(xs, g)])"
| "rx_run REps s g = [(s, g)]"
| "rx_run (RSeq a b) s g = concat (map (\<lambda>(s', g'). rx_run b s' g') (rx_run a s g))"
| "rx_run (RAlt a b) s g = rx_run a s g @ rx_run b s g"
| "rx_run (RStar a) s g =
     concat (map (\<lambda>(s', g'). if length s' < length s then rx_run (RStar a) s' g' else [])
                 (rx_run a s g))
     @ [(s, g)]"
| "rx_run (RGroup n a) s g =
     map (\<lambda>(s', g'). (s', g'(n \<mapsto> take (length s - length s') s))) (rx_run a s g)"

text \<open>\<open>pattern.match(s)\<close>: the first way the pattern matches at the start of \<open>s\<close>, as its
  groups; \<open>None\<close> when there is none.\<close>

definition re_match :: "rx \<Rightarrow> string \<Rightarrow> groups option" where
  "re_match r s = (case rx_run r s Map.empty of [] \<Rightarrow> None | (rest, g) # _ \<Rightarrow> Some g)"

definition CRLF :: string where
  "CRLF = [CHR 0x0D, CHR 0x0A]"

text \<open>
  \<open>MESSAGE_PATTERN\<close>, in the four parts the source concatenates:
  \<^verbatim>\<open>(?:[^\r\n]*\r\n)*\<close>,
  \<^verbatim>\<open>(Content-Length: ?(?P<length>\d+)\r\n)\<close>,
  \<^verbatim>\<open>((Content-Type: ?(?P<content_type>[^\r\n;]+)(; *(charset=(?P<charset>[^\r\n]+))?)?\r\n)|(?:[^\r\n]+\r\n))*\<close>
  and \<^verbatim>\<open>\r\n(?P<body>.*)\<close>.
\<close>

definition SKIPPED_LINES :: rx where
  "SKIPPED_LINES = RStar (RSeq (RStar (RNoneOf CRLF)) (rlits CRLF))"

definition CONTENT_LENGTH :: rx where
  "CONTENT_LENGTH =
     RSeq (rlits ''Content-Length:'') (RSeq (ropt (RLit CHR '' ''))
       (RSeq (RGroup ''length'' (rplus RDigit)) (rlits CRLF)))"

definition OTHER_HEADERS :: rx where
  "OTHER_HEADERS =
     RStar (RAlt
       (RSeq (rlits ''Content-Type:'') (RSeq (ropt (RLit CHR '' ''))
         (RSeq (RGroup ''content_type'' (rplus (RNoneOf (CRLF @ '';''))))
           (RSeq (ropt (RSeq (RLit CHR '';'') (RSeq (RStar (RLit CHR '' ''))
                   (ropt (RSeq (rlits ''charset='')
                               (RGroup ''charset'' (rplus (RNoneOf CRLF))))))))
                 (rlits CRLF)))))
       (RSeq (rplus (RNoneOf CRLF)) (rlits CRLF)))"

definition BODY :: rx where
  "BODY = RSeq (rlits CRLF) (RGroup ''body'' (RStar RAny))"

definition MESSAGE_PATTERN :: rx where
  "MESSAGE_PATTERN = RSeq SKIPPED_LINES (RSeq CONTENT_LENGTH (RSeq OTHER_HEADERS BODY))"

subsection \<open>A match of the pattern leaves a body shorter than the buffer\<close>

text \<open>The least number of bytes a pattern consumes.\<close>

fun min_len :: "rx \<Rightarrow> nat" where
  "min_len (RLit c) = 1"
| "min_len (RNoneOf cs) = 1"
| "min_len RDigit = 1"
| "min_len RAny = 1"
| "min_len REps = 0"
| "min_len (RSeq a b) = min_len a + min_len b"
| "min_len (RAlt a b) = min (min_len a) (min_len b)"
| "min_len (RStar a) = 0"
| "min_len (RGroup n a) = min_len a"

declare rx_run.simps(8) [simp del]

lemma rx_run_star_mem:
  "(s', g') \<in> set (rx_run (RStar a) s g) \<longleftrightarrow>
     (s', g') = (s, g) \<or>
     (\<exists>s1 g1. (s1, g1) \<in> set (rx_run a s g) \<and> length s1 < length s \<and>
        (s', g') \<in> set (rx_run (RStar a) s1 g1))"
  by (subst rx_run.simps(8)) (auto split: if_splits)

lemma rx_run_consumes:
  "(s', g') \<in> set (rx_run r s g) \<Longrightarrow> length s' + min_len r \<le> length s"
proof (induction r s g arbitrary: s' g' rule: rx_run.induct)
  case (6 a b s g)
  from "6.prems" obtain s1 g1 where
    a: "(s1, g1) \<in> set (rx_run a s g)" and b: "(s', g') \<in> set (rx_run b s1 g1)"
    by auto
  from "6.IH"(1) [OF a] "6.IH"(2) [OF a refl b] show ?case by simp
next
  case (8 a s g)
  from "8.prems" rx_run_star_mem [of s' g' a s g]
  consider "(s', g') = (s, g)"
    | s1 g1 where "(s1, g1) \<in> set (rx_run a s g)" "length s1 < length s"
        "(s', g') \<in> set (rx_run (RStar a) s1 g1)"
    by blast
  then show ?case
  proof cases
    case 1
    then show ?thesis by simp
  next
    case (2 s1 g1)
    from "8.IH"(2) [OF 2(1) refl 2(2) 2(3)] 2(2) show ?thesis by simp
  qed
next
  case (7 a b s g)
  from "7.prems" consider "(s', g') \<in> set (rx_run a s g)" | "(s', g') \<in> set (rx_run b s g)"
    by auto
  then show ?case
  proof cases
    case 1
    from "7.IH"(1) [OF 1] show ?thesis by simp
  next
    case 2
    from "7.IH"(2) [OF 2] show ?thesis by simp
  qed
next
  case (9 n a s g)
  from "9.prems" obtain g1 where "(s', g1) \<in> set (rx_run a s g)" by auto
  from "9.IH" [OF this] show ?case by simp
next
  case (1 c s g)
  then show ?case by (cases s) (auto split: if_splits)
next
  case (2 cs s g)
  then show ?case by (cases s) (auto split: if_splits)
next
  case (3 s g)
  then show ?case by (cases s) (auto split: if_splits)
next
  case (4 s g)
  then show ?case by (cases s) auto
next
  case (5 s g)
  then show ?case by simp
qed

lemma rx_run_seq_group:
  assumes "(s', g') \<in> set (rx_run (RSeq h (RGroup n b)) s g)"
  shows "\<exists>v. g' n = Some v \<and> length v + min_len h \<le> length s"
proof -
  from assms obtain s1 g1 s2 g2 where
    h: "(s1, g1) \<in> set (rx_run h s g)" and b: "(s2, g2) \<in> set (rx_run b s1 g1)"
    and g': "g' = g2(n \<mapsto> take (length s1 - length s2) s1)"
    by auto
  from rx_run_consumes [OF h] g' show ?thesis by auto
qed

lemma rx_run_seq_tail:
  assumes "(s', g') \<in> set (rx_run (RSeq a b) s g)"
  shows "\<exists>s1 g1. (s', g') \<in> set (rx_run b s1 g1) \<and> length s1 \<le> length s"
proof -
  from assms obtain s1 g1 where
    a: "(s1, g1) \<in> set (rx_run a s g)" and b: "(s', g') \<in> set (rx_run b s1 g1)"
    by auto
  from rx_run_consumes [OF a] have "length s1 \<le> length s" by simp
  with b show ?thesis by blast
qed

lemma message_pattern_body:
  assumes "re_match MESSAGE_PATTERN s = Some g"
  shows "\<exists>b. g ''body'' = Some b \<and> length b < length s"
proof -
  from assms obtain rest where m: "(rest, g) \<in> set (rx_run MESSAGE_PATTERN s Map.empty)"
    by (auto simp: re_match_def split: list.splits)
  from rx_run_seq_tail [OF m [unfolded MESSAGE_PATTERN_def]] obtain s1 g1 where
    t1: "(rest, g) \<in> set (rx_run (RSeq CONTENT_LENGTH (RSeq OTHER_HEADERS BODY)) s1 g1)"
    and l1: "length s1 \<le> length s" by blast
  from rx_run_seq_tail [OF t1] obtain s2 g2 where
    t2: "(rest, g) \<in> set (rx_run (RSeq OTHER_HEADERS BODY) s2 g2)"
    and l2: "length s2 \<le> length s1" by blast
  from rx_run_seq_tail [OF t2] obtain s3 g3 where
    t3: "(rest, g) \<in> set (rx_run BODY s3 g3)"
    and l3: "length s3 \<le> length s2" by blast
  from rx_run_seq_group [OF t3 [unfolded BODY_def]] obtain v where
    "g ''body'' = Some v" and "length v + min_len (rlits CRLF) \<le> length s3" by blast
  moreover have "min_len (rlits CRLF) = 2" by (simp add: CRLF_def)
  ultimately show ?thesis using l1 l2 l3 by auto
qed

subsection \<open>The receive loop\<close>

definition CHARSET :: string where
  "CHARSET = ''utf-8''"

text \<open>\<open>int(found.group("length"))\<close> on a string of digits.\<close>

definition int_of_digits :: "string \<Rightarrow> nat" where
  "int_of_digits ds = foldl (\<lambda>n c. 10 * n + (of_char c - 48)) 0 ds"

text \<open>\<open>bytes.decode("ascii")\<close> raises \<open>UnicodeDecodeError\<close> on a byte above 127.\<close>

definition decode_ascii :: "string \<Rightarrow> exc + string" where
  "decode_ascii bs = (if list_all (\<lambda>c. (of_char c :: nat) < 128) bs then Inr bs else Inl UnicodeDecodeError)"

definition group_bytes :: "groups \<Rightarrow> string \<Rightarrow> string" where
  "group_bytes g n = (case g n of Some b \<Rightarrow> b | None \<Rightarrow> [])"

text \<open>
  \<open>_json_rpc_message_from_dict(json.loads(body.decode(charset)))\<close>, the generator that the
  \<open>try\<close> block iterates, is a function of the charset and the body: the messages it yields,
  and the \<open>str()\<close> of the exception that ends it, if any (an unknown charset, invalid JSON,
  a JSON value that is not a JSON-RPC message). The JSON parser is the library's and is a
  parameter here.
\<close>

type_synonym decoder = "string \<Rightarrow> string \<Rightarrow> jsonrpc_message list \<times> string option"

text \<open>The \<open>try\<close> block: \<open>handle_message\<close> is scheduled for every message yielded, and an
  exception is answered by \<open>send_error(PARSE_ERROR, str(e))\<close>, which has no id.\<close>

definition handle_body :: "decoder \<Rightarrow> connection \<Rightarrow> string \<Rightarrow> string \<Rightarrow> connection" where
  "handle_body dec st charset body =
     (case dec charset body of
        (msgs, None) \<Rightarrow> st\<lparr>scheduled := scheduled st @ msgs\<rparr>
      | (msgs, Some e) \<Rightarrow>
          send_error (st\<lparr>scheduled := scheduled st @ msgs\<rparr>) PARSE_ERROR e None None)"

lemma message_buf_handle_body [simp]:
  "message_buf (handle_body dec st charset body) = message_buf st"
  by (auto simp: handle_body_def send_error_def send_data_def split: prod.splits option.splits)

text \<open>
  \<open>data_received\<close>: the loop \<open>while len(data)\<close>. The result is the exception that leaves
  the method, if any, and the connection afterwards. The charset is decoded before the
  length test, outside the \<open>try\<close> block.
\<close>

function data_received :: "decoder \<Rightarrow> connection \<Rightarrow> string \<Rightarrow> exc option \<times> connection" where
  "data_received dec st data =
     (if data = [] then (None, st)
      else
        let st1 = st\<lparr>message_buf := message_buf st @ data\<rparr>;
            found = re_match MESSAGE_PATTERN (message_buf st1);
            body = (case found of Some g \<Rightarrow> group_bytes g ''body'' | None \<Rightarrow> []);
            len = (case found of Some g \<Rightarrow> int_of_digits (group_bytes g ''length'') | None \<Rightarrow> 1)
        in case (case found of
                   Some g \<Rightarrow> (case g ''charset'' of Some cs \<Rightarrow> decode_ascii cs | None \<Rightarrow> Inr CHARSET)
                 | None \<Rightarrow> Inr CHARSET) of
             Inl e \<Rightarrow> (Some e, st1)
           | Inr charset \<Rightarrow>
               if length body < len then (None, st1)
               else data_received dec
                      (handle_body dec (st1\<lparr>message_buf := []\<rparr>) charset (take len body))
                      (drop len body))"
  by pat_completeness auto
termination
proof (relation "measure (\<lambda>(dec, st, data). length (message_buf st) + length data)", goal_cases)
  case 1
  show ?case by simp
next
  case (2 dec st data st1 found body len charset)
  show ?case
  proof (cases found)
    case None
    with 2 show ?thesis by simp
  next
    case (Some g)
    with 2 have m: "re_match MESSAGE_PATTERN (message_buf st @ data) = Some g" by simp
    from message_pattern_body [OF m] obtain b where
      b: "g ''body'' = Some b" "length b < length (message_buf st @ data)" by blast
    from 2(2-) b show ?thesis by (simp add: group_bytes_def m)
  qed
qed

declare data_received.simps [simp del]

text \<open>The chunks of a stream, received one after the other; an exception ends the
  connection.\<close>

fun feed :: "decoder \<Rightarrow> connection \<Rightarrow> string list \<Rightarrow> exc option \<times> connection" where
  "feed dec st [] = (None, st)"
| "feed dec st (c # cs) =
     (case data_received dec st c of
        (None, st') \<Rightarrow> feed dec st' cs
      | (Some e, st') \<Rightarrow> (Some e, st'))"

text \<open>What \<open>data_received\<close> reads of a match: the body, the length and the charset group.\<close>

definition frame_of :: "string \<Rightarrow> (string \<times> nat \<times> string option) option" where
  "frame_of buf =
     map_option (\<lambda>g. (group_bytes g ''body'', int_of_digits (group_bytes g ''length''), g ''charset''))
       (re_match MESSAGE_PATTERN buf)"

definition charset_of :: "string option \<Rightarrow> exc + string" where
  "charset_of cs = (case cs of Some bs \<Rightarrow> decode_ascii bs | None \<Rightarrow> Inr CHARSET)"

text \<open>A buffer that holds no complete frame: no header matches, or fewer body bytes than
  the length announces.\<close>

definition frame_pending :: "string \<Rightarrow> bool" where
  "frame_pending buf =
     (case frame_of buf of
        None \<Rightarrow> True
      | Some (body, len, cs) \<Rightarrow> (case charset_of cs of Inl e \<Rightarrow> False | Inr c \<Rightarrow> length body < len))"

subsection \<open>Sample inputs\<close>

text \<open>
  A frame with the least header, and two notifications as a client may send them: the
  first body ends with a line break (four bytes of JSON white space count in its length),
  the second does not. \<open>sample_decoder\<close> is what the decoder returns on these bodies, and a
  JSON error on every other body.
\<close>

definition quoted :: "string \<Rightarrow> string" where
  "quoted s = [CHR 0x22] @ s @ [CHR 0x22]"

definition minimal_frame :: "string \<Rightarrow> string" where
  "minimal_frame body = ''Content-Length: '' @ str_nat (length body) @ CRLF @ CRLF @ body"

definition sample_body_a :: string where
  "sample_body_a =
     ''{'' @ quoted ''jsonrpc'' @ '':'' @ quoted ''2.0'' @ '','' @ quoted ''method'' @ '':''
       @ quoted ''a'' @ ''}'' @ CRLF"

definition sample_body_b :: string where
  "sample_body_b =
     ''{'' @ quoted ''jsonrpc'' @ '':'' @ quoted ''2.0'' @ '','' @ quoted ''method'' @ '':''
       @ quoted ''b'' @ ''}''"

definition sample_decoder :: decoder where
  "sample_decoder charset body =
     (if body = sample_body_a then ([JsonRPCNotification ''a'' None], None)
      else if body = sample_body_b then ([JsonRPCNotification ''b'' None], None)
      else ([], Some ''Expecting value''))"

definition idle_connection :: connection where
  "idle_connection =
     \<lparr>transport = Some [], request_futures = Map.empty, message_buf = [],
      registry = Map.empty, futures = (\<lambda>_. Pending), scheduled = []\<rparr>"



section \<open>The diagnostics part (language\_server/common/parts/diagnostics.py)\<close>

subsection \<open>Runs, tasks and documents\<close>

text \<open>
  \<open>DiagnosticsData\<close>, the record of a run. Its id is a \<open>uuid4\<close>, a token here: the tokens
  are numbered in the order in which they are generated, so that a token generated later
  differs from every earlier one. The entries are a \<open>dict\<close> from collector key to an optional
  list of diagnostics; the task is a reference to an \<open>asyncio.Task\<close>.
\<close>

record 'd diagnostics_data =
  dd_id :: nat
  dd_entries :: "(string \<times> 'd list option) list"
  dd_version :: "int option"
  dd_task :: "nat option"
  dd_force :: bool

text \<open>
  A task of the diagnostics loop running \<open>_get_diagnostics_for_document(document, data)\<close>:
  whether it is done, the record \<open>data\<close> it was given (a reference), and its local
  \<open>collected_keys\<close>.
\<close>

datatype task_state = TaskPending | TaskFinished | TaskCancelled

record task =
  t_state :: task_state
  t_data :: nat
  t_collected :: "string list"

text \<open>What the diagnostics part reads of a \<open>TextDocument\<close>: its version, whether it is open
  in the editor, and \<open>document.get_data(self)\<close>, a reference to the current record, if any.\<close>

record document =
  d_version :: "int option"
  d_opened_in_editor :: bool
  d_data :: "nat option"

text \<open>The effects of the request handler on what the two loops share, in program order:
  \<open>document.set_data(self, data)\<close>, \<open>call_soon_threadsafe(task.cancel)\<close> and
  \<open>create_sub_task(...)\<close>.\<close>

datatype effect = DataInstalled nat | CancelPosted nat | TaskCreated nat

text \<open>
  The state: the documents by uri, the records and the tasks (objects, by reference), the
  counters of the next token, record and task, and the effects so far.
\<close>

record 'd diagnostics_part =
  documents :: "string \<rightharpoonup> document"
  data_heap :: "nat \<Rightarrow> 'd diagnostics_data"
  tasks :: "nat \<Rightarrow> task"
  next_uuid :: nat
  next_data :: nat
  next_task :: nat
  effects :: "effect list"

datatype 'd report =
    RelatedFullDocumentDiagnosticReport "'d list" nat
  | RelatedUnchangedDocumentDiagnosticReport nat

text \<open>\<open>JsonRPCErrorException(ErrorCodes.SERVER_CANCELLED, ...)\<close>.\<close>

datatype diagnostics_error = ServerCancelled

subsection \<open>The request handler\<close>

text \<open>\<open>DiagnosticsData(id)\<close> with the defaults of its other fields, allocated as a new
  object.\<close>

definition new_data :: "'d diagnostics_part \<Rightarrow> nat \<times> 'd diagnostics_part" where
  "new_data st =
     (next_data st,
      st\<lparr>data_heap := (data_heap st)(next_data st :=
             \<lparr>dd_id = next_uuid st, dd_entries = [], dd_version = None, dd_task = None,
              dd_force = False\<rparr>),
         next_uuid := Suc (next_uuid st),
         next_data := Suc (next_data st)\<rparr>)"

definition set_data :: "'d diagnostics_part \<Rightarrow> string \<Rightarrow> document \<Rightarrow> nat \<Rightarrow> 'd diagnostics_part" where
  "set_data st uri doc r =
     st\<lparr>documents := (documents st)(uri \<mapsto> doc\<lparr>d_data := Some r\<rparr>),
        effects := effects st @ [DataInstalled r]\<rparr>"

text \<open>\<open>get_diagnostics_data\<close>: the current record of the document, created when there is
  none.\<close>

definition get_diagnostics_data ::
  "'d diagnostics_part \<Rightarrow> string \<Rightarrow> document \<Rightarrow> nat \<times> 'd diagnostics_part" where
  "get_diagnostics_data st uri doc =
     (case d_data doc of
        Some r \<Rightarrow> (r, st)
      | None \<Rightarrow> (case new_data st of (r, st1) \<Rightarrow> (r, set_data st1 uri doc r)))"

text \<open>The body of \<open>if data.force or document.version != data.version or data.task is None\<close>:
  a new record is created and installed, the task of the old record is sent a
  cancellation if it is not done, and the version and the new task are stored in the new
  record.\<close>

definition start_run ::
  "'d diagnostics_part \<Rightarrow> string \<Rightarrow> document \<Rightarrow> nat option \<Rightarrow> nat \<times> 'd diagnostics_part" where
  "start_run st uri doc old_task =
     (case new_data st of
        (r, st1) \<Rightarrow>
          let st2 = set_data st1 uri doc r;
              st3 = (case old_task of
                       None \<Rightarrow> st2
                     | Some t \<Rightarrow>
                         if t_state (tasks st2 t) = TaskPending
                         then st2\<lparr>effects := effects st2 @ [CancelPosted t]\<rparr>
                         else st2);
              st4 = st3\<lparr>data_heap := (data_heap st3)(r :=
                          (data_heap st3 r)\<lparr>dd_version := d_version doc\<rparr>)\<rparr>;
              tk = next_task st4;
              st5 = st4\<lparr>tasks := (tasks st4)(tk :=
                          \<lparr>t_state = TaskPending, t_data = r, t_collected = []\<rparr>),
                        next_task := Suc tk,
                        effects := effects st4 @ [TaskCreated tk]\<rparr>
          in (r, st5\<lparr>data_heap := (data_heap st5)(r := (data_heap st5 r)\<lparr>dd_task := Some tk\<rparr>)\<rparr>))"

text \<open>\<open>list(itertools.chain(*(e for e in data.entries.values() if e is not None)))\<close>.\<close>

definition aggregate :: "(string \<times> 'd list option) list \<Rightarrow> 'd list" where
  "aggregate entries = concat (map (\<lambda>(k, e). case e of None \<Rightarrow> [] | Some ds \<Rightarrow> ds) entries)"

text \<open>\<open>_text_document_diagnostic(text_document, identifier, previous_result_id)\<close>.\<close>

definition text_document_diagnostic ::
  "'d diagnostics_part \<Rightarrow> string \<Rightarrow> nat option \<Rightarrow>
     (diagnostics_error + 'd report) \<times> 'd diagnostics_part" where
  "text_document_diagnostic st uri previous_result_id =
     (case documents st uri of
        None \<Rightarrow> (Inl ServerCancelled, st)
      | Some doc \<Rightarrow>
          (case get_diagnostics_data st uri doc of
             (r, st1) \<Rightarrow>
               let d = data_heap st1 r;
                   (r', st2) =
                     (if dd_force d \<or> d_version doc \<noteq> dd_version d \<or> dd_task d = None
                      then start_run st1 uri doc (dd_task d)
                      else (r, st1));
                   d' = data_heap st2 r'
               in if Some (dd_id d') = previous_result_id
                  then (Inr (RelatedUnchangedDocumentDiagnosticReport (dd_id d')), st2)
                  else (Inr (RelatedFullDocumentDiagnosticReport
                               (aggregate (dd_entries d')) (dd_id d')), st2)))"

subsection \<open>The run, on the diagnostics loop\<close>

text \<open>
  One turn of the loop \<open>async for result_any in self.collect(...)\<close> of a task that is still
  running, for a result that is not an exception: the record of the task gets a new id and
  the entry of the collector.
\<close>

definition collector_result ::
  "'d diagnostics_part \<Rightarrow> nat \<Rightarrow> string \<Rightarrow> 'd list option \<Rightarrow> 'd diagnostics_part" where
  "collector_result st t key diagnostics =
     (if t_state (tasks st t) \<noteq> TaskPending then st
      else
        let r = t_data (tasks st t);
            d = data_heap st r
        in st\<lparr>data_heap := (data_heap st)(r :=
                 d\<lparr>dd_id := next_uuid st,
                   dd_entries := dict_set key diagnostics (dd_entries d)\<rparr>),
               next_uuid := Suc (next_uuid st),
               tasks := (tasks st)(t := (tasks st t)
                 \<lparr>t_collected := (if diagnostics \<noteq> None then t_collected (tasks st t) @ [key]
                                   else t_collected (tasks st t))\<rparr>)\<rparr>)"

text \<open>The end of a run, by completion or by the cancellation that was posted: the
  \<open>finally\<close> block drops the entries of the collectors that did not answer.\<close>

definition task_end :: "'d diagnostics_part \<Rightarrow> nat \<Rightarrow> task_state \<Rightarrow> 'd diagnostics_part" where
  "task_end st t how =
     (if t_state (tasks st t) \<noteq> TaskPending then st
      else
        let r = t_data (tasks st t);
            d = data_heap st r
        in st\<lparr>data_heap := (data_heap st)(r :=
                 d\<lparr>dd_entries := filter (\<lambda>(k, e). k \<in> set (t_collected (tasks st t)))
                                     (dd_entries d)\<rparr>),
               tasks := (tasks st)(t := (tasks st t)\<lparr>t_state := how\<rparr>)\<rparr>)"

subsection \<open>Order of effects, and sample inputs\<close>

text \<open>\<open>happens_before a b es\<close>: the effect \<open>a\<close> occurs in \<open>es\<close>, and \<open>b\<close> does not occur before
  the first \<open>a\<close>.\<close>

definition happens_before :: "effect \<Rightarrow> effect \<Rightarrow> effect list \<Rightarrow> bool" where
  "happens_before a b es = (a \<in> set es \<and> b \<notin> set (takeWhile (\<lambda>e. e \<noteq> a) es))"

text \<open>A document that has just been opened, and the state after its first diagnostics
  request when the document has then been edited (its version is 2, the run is for
  version 1 and its task is still pending).\<close>

definition fresh_part :: "string diagnostics_part" where
  "fresh_part =
     \<lparr>documents = [''file:///a.robot'' \<mapsto>
         \<lparr>d_version = Some 1, d_opened_in_editor = True, d_data = None\<rparr>],
      data_heap = (\<lambda>_. \<lparr>dd_id = 0, dd_entries = [], dd_version = None, dd_task = None,
                         dd_force = False\<rparr>),
      tasks = (\<lambda>_. \<lparr>t_state = TaskFinished, t_data = 0, t_collected = []\<rparr>),
      next_uuid = 0, next_data = 0, next_task = 0, effects = []\<rparr>"

definition running_part :: "string diagnostics_part" where
  "running_part =
     \<lparr>documents = [''file:///a.robot'' \<mapsto>
         \<lparr>d_version = Some 2, d_opened_in_editor = True, d_data = Some 0\<rparr>],
      data_heap = (\<lambda>_. \<lparr>dd_id = 0, dd_entries = [], dd_version = Some 1, dd_task = Some 0,
                         dd_force = False\<rparr>),
      tasks = (\<lambda>_. \<lparr>t_state = TaskPending, t_data = 0, t_collected = []\<rparr>),
      next_uuid = 1, next_data = 1, next_task = 1, effects = []\<rparr>"

section \<open>Properties of the text document\<close>











text \<open>
  Claim C6, as the code has it. For a document whose lock is free and every range with
  \<open>start > end\<close>, \<open>apply_incremental_change\<close> fails with \<open>InvalidRangeError\<close>, the
  text buffer is the one before the call and the lock is free again; the version passed
  in, when there is one, has been stored all the same (it is assigned before the range is
  checked), and the \<open>finally\<close> block has dropped the line index and cleared the cache.
\<close>

theorem invalid_range_keeps_text_only:
  assumes "pos_gt (range_start rng) (range_end rng)" and "\<not> doc_lock d"
  shows "apply_incremental_change d version rng txt =
           Some (Inl InvalidRangeError,
                 d\<lparr>doc_version := (case version of None \<Rightarrow> doc_version d | Some v \<Rightarrow> Some v),
                   doc_lines := None, doc_cache := Map.empty\<rparr>)"
  using assms
  by (cases version)
     (simp_all add: apply_incremental_change_def with_lock_def incremental_try_def
        invalidate_cache'_def)

theorem invalid_range_keeps_text_only_witness:
  "pos_gt (range_start sample_reversed_range) (range_end sample_reversed_range) \<and>
   \<not> doc_lock sample_document \<and>
   apply_incremental_change sample_document None sample_reversed_range (str_of ''X'') =
     Some (Inl InvalidRangeError, sample_document)"
proof -
  have h1: "pos_gt (range_start sample_reversed_range) (range_end sample_reversed_range)"
    by (simp add: sample_reversed_range_def pos_gt_def)
  have h2: "\<not> doc_lock sample_document" by (simp add: sample_document_def)
  from invalid_range_keeps_text_only [OF h1 h2, of None "str_of ''X''"] h1 h2
  show ?thesis by (simp add: sample_document_def)
qed

text \<open>Claim C6 as stated fails: a rejected edit that carries version 2 leaves a document
  of version 1 with version 2.\<close>

theorem invalid_range_changes_version:
  "apply_incremental_change sample_document (Some 2) sample_reversed_range (str_of ''X'') =
     Some (Inl InvalidRangeError, sample_document\<lparr>doc_version := Some 2\<rparr>) \<and>
   sample_document\<lparr>doc_version := Some 2\<rparr> \<noteq> sample_document"
  by (simp add: apply_incremental_change_def with_lock_def incremental_try_def
        invalidate_cache'_def sample_document_def sample_reversed_range_def pos_gt_def)

text \<open>
  Claim C10. When the computation returns \<open>None\<close>, \<open>get_cache\<close> awaits it once, leaves
  the slot's data empty and reaches a document on which the next call awaits it again, and
  so on for ever. When it returns a value, the first call stores the value and the next
  call returns it without awaiting the computation. A call returns without awaiting the
  computation only when the slot already holds a value other than \<open>None\<close>.
\<close>

theorem get_cache_memoizes_only_non_None:
  fixes d :: "'v text_document"
  shows
  "(slot_unset d ref \<and> (\<forall>x. entry x = None) \<longrightarrow>
      (\<exists>d'. get_cache d ref entry = Some (None, d', 1) \<and>
            (\<exists>e. doc_cache d' ref = Some e \<and> ce_data e = None) \<and>
            get_cache d' ref entry = Some (None, d', 1))) \<and>
   (slot_unset d ref \<and> (\<forall>x. entry x = Some v) \<longrightarrow>
      (\<exists>d'. get_cache d ref entry = Some (Some v, d', 1) \<and>
            get_cache d' ref entry = Some (Some v, d', 0))) \<and>
   (\<forall>r d'. get_cache d ref entry = Some (r, d', 0) \<longrightarrow>
      d' = d \<and> (\<exists>e w. doc_cache d ref = Some e \<and> ce_data e = Some w \<and> r = Some w))"
proof -
  have none: "slot_unset d ref \<and> (\<forall>x. entry x = None) \<longrightarrow>
      (\<exists>d'. get_cache d ref entry = Some (None, d', 1) \<and>
            (\<exists>e. doc_cache d' ref = Some e \<and> ce_data e = None) \<and>
            get_cache d' ref entry = Some (None, d', 1))"
    by (auto simp: slot_unset_def get_cache_def with_lock_def Let_def split: option.splits)
  have some: "slot_unset d ref \<and> (\<forall>x. entry x = Some v) \<longrightarrow>
      (\<exists>d'. get_cache d ref entry = Some (Some v, d', 1) \<and>
            get_cache d' ref entry = Some (Some v, d', 0))"
    by (auto simp: slot_unset_def get_cache_def with_lock_def Let_def split: option.splits)
  have hit: "\<forall>r d'. get_cache d ref entry = Some (r, d', 0) \<longrightarrow>
      d' = d \<and> (\<exists>e w. doc_cache d ref = Some e \<and> ce_data e = Some w \<and> r = Some w)"
  proof (intro allI impI)
    fix r d'
    assume run: "get_cache d ref entry = Some (r, d', 0)"
    show "d' = d \<and> (\<exists>e w. doc_cache d ref = Some e \<and> ce_data e = Some w \<and> r = Some w)"
    proof (cases "doc_cache d ref")
      case None
      then show ?thesis
        using run
        by (simp add: get_cache_def with_lock_def Let_def split: if_splits)
    next
      case (Some e)
      note slot = this
      show ?thesis
      proof (cases "ce_data e")
        case None
        then show ?thesis
          using slot run
          by (simp add: get_cache_def Let_def split: if_splits)
      next
        case (Some w)
        with slot run have "r = Some w" and "d' = d"
          by (simp_all add: get_cache_def)
        with Some slot show ?thesis by blast
      qed
    qed
  qed
  show ?thesis
    by (rule conjI, rule none, rule conjI, rule some, rule hit)
qed

theorem get_cache_memoizes_only_non_None_witness:
  "slot_unset sample_document 7 \<and> (\<forall>x. never_ready x = None) \<and>
   (\<exists>d'. get_cache sample_document 7 never_ready = Some (None, d', 1) \<and>
         get_cache d' 7 never_ready = Some (None, d', 1)) \<and>
   get_cache (sample_document\<lparr>doc_cache := [7 \<mapsto> \<lparr>ce_data = Some (), ce_lock = False\<rparr>]\<rparr>) 7 never_ready
     = Some (Some (), sample_document\<lparr>doc_cache := [7 \<mapsto> \<lparr>ce_data = Some (), ce_lock = False\<rparr>]\<rparr>, 0)"
proof -
  have h: "slot_unset sample_document 7 \<and> (\<forall>x. never_ready x = None)"
    by (simp add: slot_unset_def sample_document_def never_ready_def)
  have hit: "get_cache (sample_document\<lparr>doc_cache := [7 \<mapsto> \<lparr>ce_data = Some (), ce_lock = False\<rparr>]\<rparr>) 7 never_ready
     = Some (Some (), sample_document\<lparr>doc_cache := [7 \<mapsto> \<lparr>ce_data = Some (), ce_lock = False\<rparr>]\<rparr>, 0)"
    by (simp add: get_cache_def)
  from get_cache_memoizes_only_non_None [of sample_document 7 never_ready] h hit
  show ?thesis by blast
qed
section \<open>Properties of the dispatcher\<close>

lemma send_data_transport:
  "send_data st m = st\<lparr>transport := map_option (\<lambda>w. w @ [m]) (transport st)\<rparr>"
  by (cases "transport st") (simp_all add: send_data_def)



text \<open>
  Claim C4, at an Error reply. \<open>handle_message\<close> passes an Error reply to \<open>handle_error\<close>,
  which raises \<open>NotImplementedError\<close>: whether its id is pending (id 1) or not (id 2), the
  pending table and the future are left as they were and nothing is sent.
\<close>

theorem error_reply_not_handled:
  "handle_message sample_connection (JsonRPCError (Some (IdStr ''1'')) sample_error_object) =
     (Some NotImplementedError, sample_connection) \<and>
   request_futures sample_connection (IdStr ''1'') = Some \<lparr>rf_future = 0, rf_result_type = None\<rparr> \<and>
   futures sample_connection 0 = Pending \<and>
   handle_message sample_connection (JsonRPCError (Some (IdStr ''2'')) sample_error_object) =
     (Some NotImplementedError, sample_connection) \<and>
   request_futures sample_connection (IdStr ''2'') = None"
  by (simp add: handle_error_def sample_connection_def)

text \<open>A Response is handled as claim C4 says: a pending entry is removed and its future
  completed with the converted result, or failed when the conversion raises; an id that is
  not pending is answered by an \<open>INTERNAL_ERROR\<close>.\<close>

lemma handle_response_matched:
  assumes "request_futures st i = Some entry" and "futures st (rf_future entry) = Pending"
  shows "handle_response st (Some i) result =
           (None, st\<lparr>request_futures := (request_futures st)(i := None),
                    futures := (futures st)(rf_future entry :=
                      (case try_convert_value result (rf_result_type entry) of
                         Inr v \<Rightarrow> Finished v | Inl e \<Rightarrow> Failed (PyError e)))\<rparr>)"
  using assms
  by (auto simp: handle_response_def Let_def set_result_def set_exception_def
      split: sum.splits)

lemma handle_response_unmatched:
  assumes "request_futures st i = None"
  shows "\<exists>msg. handle_response st (Some i) result =
           (None, st\<lparr>transport := map_option (\<lambda>w. w @ [JsonRPCError None
                    \<lparr>err_code = INTERNAL_ERROR, err_message = Some msg, err_data = None\<rparr>]) (transport st)\<rparr>)"
  using assms
  by (simp add: handle_response_def send_error_def send_data_transport del: append.simps)
     (rule exI, rule refl)

subsection \<open>Parameter binding\<close>

lemma map_of_dict_set: "map_of (dict_set k v kvs) = (map_of kvs)(k \<mapsto> v)"
  by (induction kvs) auto

lemma bind_loop_result:
  "bind_loop sig cp hv (args, kw, rest, added) = (args', kw', rest', added') \<Longrightarrow>
   distinct rest \<Longrightarrow>
     args' = args @ spec_args sig cp \<and>
     map_of kw' =
       (\<lambda>n. if keyword_capable_in sig n \<and>
               (if map_of cp n = None then n = ''params'' else hv)
             then (case map_of cp n of Some x \<Rightarrow> Some (ArgValue x) | None \<Rightarrow> Some (ArgObject cp))
             else map_of kw n) \<and>
     distinct rest' \<and>
     set rest' = set rest - {n. map_of cp n \<noteq> None \<and> n \<in> p_name ` set sig} \<and>
     added' = (added \<or> (map_of cp ''params'' = None \<and> ''params'' \<in> p_name ` set sig))"
proof (induction sig arbitrary: args kw rest added)
  case Nil
  then show ?case by (auto simp: spec_args_def keyword_capable_in_def)
next
  case (Cons v vs)
  show ?case
  proof (cases "map_of cp (p_name v)")
    case None
    show ?thesis
    proof (cases "p_name v = ''params''")
      case True
      show ?thesis
      proof (cases "p_kind v = POSITIONAL_ONLY")
        case po: True
        from Cons.prems(1) None True po
        have "bind_loop vs cp hv (args @ [ArgObject cp], kw, rest, True) = (args', kw', rest', added')"
          by simp
        from Cons.IH [OF this Cons.prems(2)] None True po
        show ?thesis
          by (auto simp: spec_args_def keyword_capable_in_def fun_eq_iff)
      next
        case npo: False
        from Cons.prems(1) None True npo
        have "bind_loop vs cp hv (args, dict_set (p_name v) (ArgObject cp) kw, rest, True)
                = (args', kw', rest', added')"
          by simp
        from Cons.IH [OF this Cons.prems(2)] None True npo
        show ?thesis
          by (auto simp: spec_args_def keyword_capable_in_def fun_eq_iff map_of_dict_set)
      qed
    next
      case False
      from Cons.prems(1) None False
      have "bind_loop vs cp hv (args, kw, rest, added) = (args', kw', rest', added')"
        by simp
      from Cons.IH [OF this Cons.prems(2)] None False
      show ?thesis
        by (auto simp: spec_args_def keyword_capable_in_def fun_eq_iff)
    qed
  next
    case (Some x)
    have d: "distinct (remove1 (p_name v) rest)" using Cons.prems(2) by simp
    have s: "set (remove1 (p_name v) rest) = set rest - {p_name v}"
      using Cons.prems(2) by simp
    show ?thesis
    proof (cases "p_kind v = POSITIONAL_ONLY")
      case po: True
      from Cons.prems(1) Some po
      have "bind_loop vs cp hv (args @ [ArgValue x], kw, remove1 (p_name v) rest, added)
              = (args', kw', rest', added')"
        by simp
      from Cons.IH [OF this d] Some po s
      show ?thesis
        by (auto simp: spec_args_def keyword_capable_in_def fun_eq_iff)
    next
      case npo: False
      show ?thesis
      proof (cases hv)
        case True
        from Cons.prems(1) Some npo True
        have "bind_loop vs cp hv (args, dict_set (p_name v) (ArgValue x) kw,
                 remove1 (p_name v) rest, added) = (args', kw', rest', added')"
          by simp
        from Cons.IH [OF this d] Some npo s True
        show ?thesis
          by (auto simp: spec_args_def keyword_capable_in_def fun_eq_iff map_of_dict_set)
      next
        case False
        from Cons.prems(1) Some npo False
        have "bind_loop vs cp hv (args, kw, remove1 (p_name v) rest, added)
                = (args', kw', rest', added')"
          by simp
        from Cons.IH [OF this d] Some npo s False
        show ?thesis
          by (auto simp: spec_args_def keyword_capable_in_def fun_eq_iff)
      qed
    qed
  qed
qed

lemma map_of_rest_loop:
  "map_of (rest_loop rs cp kw) =
     (\<lambda>n. if n \<in> set rs \<and> map_of cp n \<noteq> None then map_option ArgValue (map_of cp n)
           else map_of kw n)"
  by (induction rs arbitrary: kw) (auto simp: fun_eq_iff map_of_dict_set split: option.splits)

lemma convert_params_typed:
  assumes "p \<noteq> JNull"
  shows "convert_params sig (Some construct) (Some p) =
     (case construct p of
        Inl e \<Rightarrow> Inl e
      | Inr cp \<Rightarrow>
          (case bind_loop sig cp (has_var_kw sig) ([], [], map fst cp, False) of
             (args, kw_args, rest, params_added) \<Rightarrow>
               if has_var_kw sig then
                 let kw1 = rest_loop rest cp kw_args;
                     kw2 = (if \<not> params_added
                            then dict_set ''params'' (ArgObject cp) kw1 else kw1)
                 in Inr (args, kw2)
               else Inr (args, kw_args)))"
  using assms by (cases p) (simp_all add: convert_params_def)

text \<open>
  Claim C9, as the code has it. With a parameter type and raw parameters other than
  \<open>None\<close>, the raw parameters are turned into the typed object and its fields are bound:
  a field that names a positional-only parameter is passed positionally; with a catch-all
  keyword parameter every other field is passed by keyword (to the parameter of its name,
  or to the catch-all), and the whole typed object is passed as \<open>params\<close>; without a
  catch-all keyword parameter no field is passed by keyword. A parameter called \<open>params\<close>
  that is not a field receives the whole typed object.
\<close>

theorem convert_params_binding:
  assumes "construct p = Inr cp" and "p \<noteq> JNull" and "distinct (map fst cp)"
  shows "\<exists>kw. convert_params sig (Some construct) (Some p) = Inr (spec_args sig cp, kw) \<and>
              map_of kw = spec_kw_args sig cp"
proof -
  obtain args kw rest added where
    b: "bind_loop sig cp (has_var_kw sig) ([], [], map fst cp, False) = (args, kw, rest, added)"
    by (metis prod_cases4)
  note r = bind_loop_result [OF b assms(3)]
  have args: "args = spec_args sig cp" using r by simp
  have kw: "map_of kw =
       (\<lambda>n. if keyword_capable_in sig n \<and>
               (if map_of cp n = None then n = ''params'' else has_var_kw sig)
             then (case map_of cp n of Some x \<Rightarrow> Some (ArgValue x) | None \<Rightarrow> Some (ArgObject cp))
             else None)"
    using r by (simp cong: if_cong)
  have rest: "set rest = set (map fst cp) - {n. map_of cp n \<noteq> None \<and> n \<in> p_name ` set sig}"
    using r by simp
  have added: "added = (map_of cp ''params'' = None \<and> ''params'' \<in> p_name ` set sig)"
    using r by simp
  have in_sig: "\<And>n. n \<in> p_name ` set sig \<longleftrightarrow> positional_only_in sig n \<or> keyword_capable_in sig n"
    by (auto simp: positional_only_in_def keyword_capable_in_def)
  show ?thesis
  proof (cases "has_var_kw sig")
    case False
    then have "convert_params sig (Some construct) (Some p) = Inr (spec_args sig cp, kw)"
      using assms(1,2) b args by (simp add: convert_params_typed)
    moreover have "map_of kw = spec_kw_args sig cp"
      using False by (auto simp: kw spec_kw_args_def fun_eq_iff)
    ultimately show ?thesis by blast
  next
    case True
    let ?kw1 = "rest_loop rest cp kw"
    let ?kw2 = "if \<not> added then dict_set ''params'' (ArgObject cp) ?kw1 else ?kw1"
    have "convert_params sig (Some construct) (Some p) = Inr (spec_args sig cp, ?kw2)"
      using assms(1,2) b args True by (simp add: convert_params_typed Let_def)
    moreover have "map_of ?kw2 = spec_kw_args sig cp"
    proof (rule ext)
      fix n
      have mem: "\<And>a. map_of cp n = Some a \<Longrightarrow> n \<in> fst ` set cp"
        by (metis map_of_SomeD fst_conv image_eqI)
      show "map_of ?kw2 n = spec_kw_args sig cp n"
        using True
        by (cases "map_of cp n")
           (auto simp: map_of_dict_set map_of_rest_loop kw rest added spec_kw_args_def
              in_sig dest: mem)
    qed
    ultimately show ?thesis by blast
  qed
qed

theorem convert_params_binding_witness:
  "sample_param_type sample_params =
     Inr [(''text_document'', JStr ''file:///a.robot''), (''identifier'', JNull),
          (''work_done_token'', JInt 5)] \<and>
   sample_params \<noteq> JNull \<and>
   distinct (map fst [(''text_document'', JStr ''file:///a.robot''), (''identifier'', JNull),
          (''work_done_token'', JInt 5)]) \<and>
   (\<exists>kw. convert_params sample_signature (Some sample_param_type) (Some sample_params) = Inr ([], kw) \<and>
         map_of kw ''text_document'' = Some (ArgValue (JStr ''file:///a.robot'')) \<and>
         map_of kw ''work_done_token'' = Some (ArgValue (JInt 5)) \<and>
         map_of kw ''params'' = Some (ArgObject [(''text_document'', JStr ''file:///a.robot''),
            (''identifier'', JNull), (''work_done_token'', JInt 5)]))"
proof -
  let ?cp = "[(''text_document'', JStr ''file:///a.robot''), (''identifier'', JNull),
          (''work_done_token'', JInt 5)]"
  have h1: "sample_param_type sample_params = Inr ?cp"
    by (simp add: sample_param_type_def sample_params_def)
  have h2: "sample_params \<noteq> JNull" by (simp add: sample_params_def)
  have h3: "distinct (map fst ?cp)" by simp
  have hv: "has_var_kw sample_signature" by (simp add: has_var_kw_def sample_signature_def)
  have a: "spec_args sample_signature ?cp = []"
    by (simp add: spec_args_def sample_signature_def)
  have k1: "spec_kw_args sample_signature ?cp ''text_document'' = Some (ArgValue (JStr ''file:///a.robot''))"
    by (simp add: spec_kw_args_def hv) (simp add: sample_signature_def positional_only_in_def)
  have k2: "spec_kw_args sample_signature ?cp ''work_done_token'' = Some (ArgValue (JInt 5))"
    by (simp add: spec_kw_args_def hv) (simp add: sample_signature_def positional_only_in_def)
  have k3: "spec_kw_args sample_signature ?cp ''params'' = Some (ArgObject ?cp)"
    by (simp add: spec_kw_args_def hv) (simp add: sample_signature_def positional_only_in_def)
  from convert_params_binding [of sample_param_type sample_params ?cp sample_signature, OF h1 h2 h3] a k1 k2 k3 h1 h2 h3
  show ?thesis by auto
qed

text \<open>Claim C9 as stated fails: for a handler without a catch-all keyword parameter, the
  fields that name its (keyword-capable) parameters are not passed at all.\<close>

theorem keyword_parameter_not_bound:
  "convert_params sample_signature_plain (Some sample_param_type) (Some sample_params) = Inr ([], [])"
  by (simp add: convert_params_def sample_params_def sample_param_type_def
      sample_signature_plain_def has_var_kw_def)

section \<open>Properties of the framing\<close>

lemma data_received_no_header:
  assumes "frame_of (message_buf st @ data) = None"
  shows "data_received dec st data = (None, st\<lparr>message_buf := message_buf st @ data\<rparr>)"
proof (cases "data = []")
  case True
  then show ?thesis by (simp add: data_received.simps)
next
  case False
  with assms show ?thesis
    by (subst data_received.simps) (simp add: frame_of_def CHARSET_def)
qed

lemma data_received_frame:
  assumes "data \<noteq> []" and "frame_of (message_buf st @ data) = Some (body, len, cs)"
  shows "data_received dec st data =
     (case charset_of cs of
        Inl e \<Rightarrow> (Some e, st\<lparr>message_buf := message_buf st @ data\<rparr>)
      | Inr charset \<Rightarrow>
          if length body < len then (None, st\<lparr>message_buf := message_buf st @ data\<rparr>)
          else data_received dec
                 (handle_body dec (st\<lparr>message_buf := []\<rparr>) charset (take len body))
                 (drop len body))"
proof -
  from assms(2) obtain g where
    g: "re_match MESSAGE_PATTERN (message_buf st @ data) = Some g"
    and b: "body = group_bytes g ''body''" and l: "len = int_of_digits (group_bytes g ''length'')"
    and c: "cs = g ''charset''"
    by (auto simp: frame_of_def)
  show ?thesis
    using assms(1) g b l c
    by (subst data_received.simps)
       (simp add: charset_of_def Let_def split: option.splits sum.splits)
qed

lemma data_received_pending:
  assumes "frame_pending (message_buf st @ data)"
  shows "data_received dec st data = (None, st\<lparr>message_buf := message_buf st @ data\<rparr>)"
proof (cases "data = []")
  case True
  then show ?thesis by (simp add: data_received.simps)
next
  case False
  show ?thesis
  proof (cases "frame_of (message_buf st @ data)")
    case None
    then show ?thesis by (rule data_received_no_header)
  next
    case (Some f)
    obtain body len cs where f: "f = (body, len, cs)" by (cases f)
    with assms Some show ?thesis
      by (simp add: data_received_frame [OF False Some [unfolded f]] frame_pending_def
            split: sum.splits)
  qed
qed

lemma data_received_chunks_pending:
  assumes "frame_pending (message_buf st @ c1)"
  shows "feed dec st [c1, c2] = data_received dec st (c1 @ c2)"
proof (cases "c2 = []")
  case True
  then show ?thesis
    using assms by (simp add: data_received_pending data_received.simps [of _ _ "[]"])
next
  case False
  have "data_received dec (st\<lparr>message_buf := message_buf st @ c1\<rparr>) c2 =
        data_received dec st (c1 @ c2)"
    using False
    by (subst data_received.simps, subst (2) data_received.simps) simp
  then show ?thesis
    using assms by (simp add: data_received_pending split: prod.splits option.splits)
qed




text \<open>
  Claim C2, at two frames of which the first has a body that ends with a line break. Received
  in one chunk, the two frames decode to the second message only: the pattern skips whole
  lines in front of \<open>Content-Length\<close>, as many as it can, and so takes the header of the
  second frame. Received as two chunks, they decode to both messages.
\<close>

theorem chunking_changes_decoded_messages:
  "scheduled (snd (feed sample_decoder idle_connection
      [minimal_frame sample_body_a @ minimal_frame sample_body_b])) =
     [JsonRPCNotification ''b'' None] \<and>
   scheduled (snd (feed sample_decoder idle_connection
      [minimal_frame sample_body_a, minimal_frame sample_body_b])) =
     [JsonRPCNotification ''a'' None, JsonRPCNotification ''b'' None]"
  by code_simp

end
